theory Spec2Isabelle
  imports
    Complex_Main
    "HOL-Library.List_Lexorder"
    "HOL-Library.Char_ord"
    "HOL-Library.Multiset"
begin

section \<open>The trading store of \<open>database.py\<close>\<close>

text \<open>
  A shallow embedding of \<open>TradingDatabase\<close> and of the registry \<open>get_db\<close>.

  \<^item> The three tables are lists of rows in insertion order. Columns carry the types the
    schema declares: \<open>TEXT\<close> is \<open>string\<close>, \<open>REAL\<close> is \<open>real\<close> (sums are exact, the
    rounding of floating point is not modelled), a nullable column is an \<open>option\<close>.
  \<^item> Timestamps are the \<open>%Y-%m-%d %H:%M:%S\<close> strings the module stores. SQLite
    compares \<open>TEXT\<close> byte by byte, which is the lexicographic order on \<open>string\<close>; on
    this fixed-width format it is also the chronological order pandas sorts by once
    the column has been parsed.
  \<^item> Every call that leaves the module (\<open>sqlite3\<close>, \<open>pandas\<close>) either returns or
    raises. What it does is scheduled in the field \<open>faults\<close> of the state: each such
    call consumes the head of the schedule, \<open>Some e\<close> makes it raise \<open>e\<close>, and an
    exhausted schedule means that every further call returns.
  \<^item> An exception is the left summand of a result; \<open>try ... except\<close> is a case
    distinction on the result of the body.
  \<^item> Arguments have the types the docstrings give them, so that the exceptions of
    ill-typed arguments (a \<open>NULL\<close> pair, a symbol that is not a string) do not arise.
\<close>

subsection \<open>Rows and tables\<close>

datatype error =
    OperationalError string
  | IntegrityError string
  | ValueError string
  | FileNotFoundError string

record trade =
  trade_id :: nat
  trade_timestamp :: string
  trade_pair :: string
  trade_action :: string
  trade_price :: real
  trade_quantity :: real
  trade_net_profit :: "real option"
  trade_profit_pct :: "real option"
  trade_order_id :: "string option"
  trade_strategy :: "string option"
  trade_created_at :: string

record scan =
  scan_id :: nat
  scan_timestamp :: string
  scan_pair :: string
  scan_signal :: "string option"
  scan_price :: "real option"
  scan_strategy :: "string option"
  scan_interval :: "string option"
  scan_indicators :: "string option"
  scan_created_at :: string

record status =
  status_id :: nat
  status_timestamp :: string
  status_status :: string
  status_account_value :: "real option"
  status_active_pairs :: "string option"
  status_message :: "string option"
  status_created_at :: string

record tables =
  trades :: "trade list"
  market_scans :: "scan list"
  bot_status :: "status list"

definition empty_tables :: tables where
  "empty_tables = \<lparr>trades = [], market_scans = [], bot_status = []\<rparr>"

text \<open>
  The handle. \<open>conn\<close> is \<open>self.conn is not None\<close>. \<open>stored\<close> is what the file holds
  (the committed rows); \<open>txn\<close> is the working copy of a transaction that the
  connection has open, \<open>None\<close> when there is none. A connection reads its own
  uncommitted rows, hence \<open>view\<close>.
\<close>

record db =
  db_file :: string
  conn :: bool
  stored :: tables
  txn :: "tables option"
  faults :: "error option list"

definition view :: "db \<Rightarrow> tables" where
  "view s = (case txn s of None \<Rightarrow> stored s | Some t \<Rightarrow> t)"

subsection \<open>Calls, exceptions, transactions\<close>

type_synonym 'a io = "db \<Rightarrow> (error + 'a) \<times> db"

definition ret :: "'a \<Rightarrow> 'a io" where
  "ret x s = (Inr x, s)"

definition raise :: "error \<Rightarrow> 'a io" where
  "raise e s = (Inl e, s)"

definition io_bind :: "'a io \<Rightarrow> ('a \<Rightarrow> 'b io) \<Rightarrow> 'b io" where
  "io_bind m f s = (case m s of (Inl e, s') \<Rightarrow> (Inl e, s') | (Inr x, s') \<Rightarrow> f x s')"

definition io_then :: "unit io \<Rightarrow> 'b io \<Rightarrow> 'b io" where
  "io_then m k = io_bind m (\<lambda>_. k)"

text \<open>One call into \<open>sqlite3\<close> or \<open>pandas\<close>: it returns, or raises the fault scheduled for it.\<close>

definition external :: "unit io" where
  "external s =
     (case faults s of
        [] \<Rightarrow> (Inr (), s)
      | None # fs \<Rightarrow> (Inr (), s\<lparr>faults := fs\<rparr>)
      | Some e # fs \<Rightarrow> (Inl e, s\<lparr>faults := fs\<rparr>))"

definition modify :: "(db \<Rightarrow> db) \<Rightarrow> unit io" where
  "modify f s = (Inr (), f s)"

text \<open>
  \<open>connect\<close>: \<open>self.conn = sqlite3.connect(self.db_file)\<close>, then the \<open>PRAGMA\<close>. When
  \<open>sqlite3.connect\<close> raises, \<open>self.conn\<close> keeps its value; when the \<open>PRAGMA\<close> raises,
  \<open>self.conn\<close> has been assigned already. The exception is logged and raised again.
\<close>

definition connect :: "unit io" where
  "connect =
     io_then external
       (io_then (modify (\<lambda>s. s\<lparr>conn := True, txn := None\<rparr>))
          external)"

text \<open>\<open>close\<close>: an open connection is closed (its uncommitted rows are lost) and forgotten.\<close>

definition close :: "db \<Rightarrow> db" where
  "close s = (if conn s then s\<lparr>conn := False, txn := None\<rparr> else s)"

text \<open>\<open>if not self.conn: self.connect()\<close>, the first statement of every operation.\<close>

definition ensure_connection :: "unit io" where
  "ensure_connection s = (if \<not> conn s then connect s else (Inr (), s))"

text \<open>
  \<open>self.conn.commit()\<close> makes the working copy the content of the file;
  \<open>self.conn.rollback()\<close> drops it. A rollback is taken to succeed, and
  \<open>self.conn.cursor()\<close> to return.
\<close>

definition commit :: "unit io" where
  "commit = io_then external (modify (\<lambda>s. s\<lparr>stored := view s, txn := None\<rparr>))"

definition rollback :: "db \<Rightarrow> db" where
  "rollback s = s\<lparr>txn := None\<rparr>"

text \<open>
  The handler of the three writers:
  \<open>except Exception as e: ...; if self.conn: self.conn.rollback(); raise\<close>.
\<close>

definition write_guard :: "'a io \<Rightarrow> 'a io" where
  "write_guard body s =
     (case body s of
        (Inr x, s') \<Rightarrow> (Inr x, s')
      | (Inl e, s') \<Rightarrow> (Inl e, if conn s' then rollback s' else s'))"

text \<open>\<open>AUTOINCREMENT\<close>: one more than the largest identifier of the table.\<close>

definition next_id :: "nat list \<Rightarrow> nat" where
  "next_id ids = Suc (fold max ids 0)"

subsection \<open>The Recorder\<close>

definition insert_trade :: "trade \<Rightarrow> unit io" where
  "insert_trade r =
     io_then external
       (modify (\<lambda>s. s\<lparr>txn := Some ((view s)\<lparr>trades := trades (view s) @ [r]\<rparr>)\<rparr>))"

definition insert_scan :: "scan \<Rightarrow> unit io" where
  "insert_scan r =
     io_then external
       (modify (\<lambda>s. s\<lparr>txn := Some ((view s)\<lparr>market_scans := market_scans (view s) @ [r]\<rparr>)\<rparr>))"

definition insert_status :: "status \<Rightarrow> unit io" where
  "insert_status r =
     io_then external
       (modify (\<lambda>s. s\<lparr>txn := Some ((view s)\<lparr>bot_status := bot_status (view s) @ [r]\<rparr>)\<rparr>))"

text \<open>
  \<open>log_trade\<close>. \<open>now\<close> is \<open>datetime.utcnow().strftime("%Y-%m-%d %H:%M:%S")\<close>; it is
  both the timestamp and \<open>created_at\<close>. \<open>cursor.lastrowid\<close> is the identifier the
  insertion assigned.
\<close>

definition new_trade ::
  "nat \<Rightarrow> string \<Rightarrow> string \<Rightarrow> string \<Rightarrow> real \<Rightarrow> real \<Rightarrow> real option \<Rightarrow> real option \<Rightarrow>
   string option \<Rightarrow> string option \<Rightarrow> trade" where
  "new_trade i now pair action price quantity net_profit profit_pct order_id strategy =
     \<lparr>trade_id = i, trade_timestamp = now, trade_pair = pair, trade_action = action,
      trade_price = price, trade_quantity = quantity, trade_net_profit = net_profit,
      trade_profit_pct = profit_pct, trade_order_id = order_id, trade_strategy = strategy,
      trade_created_at = now\<rparr>"

definition log_trade ::
  "string \<Rightarrow> string \<Rightarrow> string \<Rightarrow> real \<Rightarrow> real \<Rightarrow> real option \<Rightarrow> real option \<Rightarrow>
   string option \<Rightarrow> string option \<Rightarrow> nat io" where
  "log_trade now pair action price quantity net_profit profit_pct order_id strategy =
     write_guard
       (io_then ensure_connection
          (\<lambda>s. let i = next_id (map trade_id (trades (view s))) in
             io_then
               (insert_trade
                  (new_trade i now pair action price quantity net_profit profit_pct
                     order_id strategy))
               (io_then commit (ret i)) s))"

text \<open>
  \<open>log_market_scan\<close>. An indicator mapping is a dictionary from names to numbers or
  strings, kept in insertion order. \<open>json.dumps\<close> and \<open>json.loads\<close> are the library's;
  the operations take them as the parameter \<open>J\<close> (\<open>loads\<close> gives \<open>None\<close> where
  \<open>json.loads\<close> raises). \<open>if indicators:\<close> is false for \<open>None\<close> and for the empty
  dictionary.
\<close>

datatype ind_value = Num real | Str string

type_synonym indicators = "(string \<times> ind_value) list"

record json_lib =
  dumps :: "indicators \<Rightarrow> string"
  loads :: "string \<Rightarrow> indicators option"

definition indicators_str :: "json_lib \<Rightarrow> indicators option \<Rightarrow> string option" where
  "indicators_str J indicators =
     (case indicators of
        None \<Rightarrow> None
      | Some d \<Rightarrow> if d \<noteq> [] then Some (dumps J d) else None)"

definition new_scan ::
  "nat \<Rightarrow> string \<Rightarrow> string \<Rightarrow> string \<Rightarrow> real \<Rightarrow> string option \<Rightarrow> string option \<Rightarrow>
   string option \<Rightarrow> scan" where
  "new_scan i now pair signal price strategy interval ind =
     \<lparr>scan_id = i, scan_timestamp = now, scan_pair = pair, scan_signal = Some signal,
      scan_price = Some price, scan_strategy = strategy, scan_interval = interval,
      scan_indicators = ind, scan_created_at = now\<rparr>"

definition log_market_scan ::
  "json_lib \<Rightarrow> string \<Rightarrow> string \<Rightarrow> string \<Rightarrow> real \<Rightarrow> string option \<Rightarrow> string option \<Rightarrow>
   indicators option \<Rightarrow> nat io" where
  "log_market_scan J now pair signal price strategy interval indicators =
     write_guard
       (io_then ensure_connection
          (\<lambda>s. let i = next_id (map scan_id (market_scans (view s))) in
             io_then
               (insert_scan
                  (new_scan i now pair signal price strategy interval
                     (indicators_str J indicators)))
               (io_then commit (ret i)) s))"

text \<open>
  \<open>log_bot_status\<close>. The argument \<open>active_pairs\<close> is a list of symbols, or any other
  object, of which the code uses the truth value and \<open>str()\<close>. \<open>','.join\<close> puts a
  comma between the symbols; \<open>if active_pairs:\<close> is false for \<open>None\<close> and for the
  empty list.
\<close>

datatype pairs_arg = PairList "string list" | Other bool string

fun join :: "char \<Rightarrow> string list \<Rightarrow> string" where
  "join c [] = []"
| "join c [x] = x"
| "join c (x # y # ys) = x @ c # join c (y # ys)"

definition active_pairs_str :: "pairs_arg option \<Rightarrow> string option" where
  "active_pairs_str active_pairs =
     (case active_pairs of
        None \<Rightarrow> None
      | Some (PairList xs) \<Rightarrow> if xs \<noteq> [] then Some (join CHR '','' xs) else None
      | Some (Other truth text) \<Rightarrow> if truth then Some text else None)"

definition new_status ::
  "nat \<Rightarrow> string \<Rightarrow> string \<Rightarrow> real option \<Rightarrow> string option \<Rightarrow> string option \<Rightarrow> status" where
  "new_status i now st account_value pairs message =
     \<lparr>status_id = i, status_timestamp = now, status_status = st,
      status_account_value = account_value, status_active_pairs = pairs,
      status_message = message, status_created_at = now\<rparr>"

definition log_bot_status ::
  "string \<Rightarrow> string \<Rightarrow> real option \<Rightarrow> pairs_arg option \<Rightarrow> string option \<Rightarrow> nat io" where
  "log_bot_status now st account_value active_pairs message =
     write_guard
       (io_then ensure_connection
          (\<lambda>s. let i = next_id (map status_id (bot_status (view s))) in
             io_then
               (insert_status
                  (new_status i now st account_value (active_pairs_str active_pairs) message))
               (io_then commit (ret i)) s))"

subsection \<open>The Query Engine\<close>

text \<open>
  The \<open>WHERE\<close> clause is built from the arguments that are true in Python: \<open>None\<close>
  and the empty string add no condition. A comparison with a \<open>NULL\<close> column is not
  true in SQL.
\<close>

definition eq_filter :: "string option \<Rightarrow> string \<Rightarrow> bool" where
  "eq_filter arg v = (case arg of None \<Rightarrow> True | Some p \<Rightarrow> p = [] \<or> v = p)"

definition eq_filter_null :: "string option \<Rightarrow> string option \<Rightarrow> bool" where
  "eq_filter_null arg v = (case arg of None \<Rightarrow> True | Some p \<Rightarrow> p = [] \<or> v = Some p)"

definition from_date :: "string option \<Rightarrow> string \<Rightarrow> bool" where
  "from_date arg ts =
     (case arg of None \<Rightarrow> True | Some d \<Rightarrow> d = [] \<or> d @ '' 00:00:00'' \<le> ts)"

definition to_date :: "string option \<Rightarrow> string \<Rightarrow> bool" where
  "to_date arg ts =
     (case arg of None \<Rightarrow> True | Some d \<Rightarrow> d = [] \<or> ts \<le> d @ '' 23:59:59'')"

text \<open>
  \<open>ORDER BY timestamp DESC\<close> and \<open>LIMIT ?\<close>. SQL leaves the order of rows of one
  timestamp open; the model puts the newest insertion first, as a backward scan of
  the index on the timestamp does. \<open>if limit:\<close> adds no clause for \<open>None\<close> and for
  0, and SQLite reads a negative limit as no limit.
\<close>

definition order_desc :: "('a \<Rightarrow> string) \<Rightarrow> 'a list \<Rightarrow> 'a list" where
  "order_desc key rows = rev (sort_key key rows)"

definition apply_limit :: "int option \<Rightarrow> 'a list \<Rightarrow> 'a list" where
  "apply_limit limit rows =
     (case limit of
        None \<Rightarrow> rows
      | Some n \<Rightarrow> if n = 0 \<or> n < 0 then rows else take (nat n) rows)"

text \<open>
  pandas: \<open>sort_values\<close> ascending and descending, \<open>fillna(0)\<close> and \<open>cumsum\<close>. Both
  sorts are modelled as stable: rows with equal keys keep their order (for the
  descending sort pandas reverses, sorts and reverses again). \<open>cumsum\<close> adds from
  the first row on.
\<close>

definition sort_values :: "('a \<Rightarrow> string) \<Rightarrow> 'a list \<Rightarrow> 'a list" where
  "sort_values key rows = sort_key key rows"

definition sort_values_desc :: "('a \<Rightarrow> string) \<Rightarrow> 'a list \<Rightarrow> 'a list" where
  "sort_values_desc key rows = rev (sort_key key (rev rows))"

definition fillna0 :: "real option \<Rightarrow> real" where
  "fillna0 v = (case v of None \<Rightarrow> 0 | Some x \<Rightarrow> x)"

fun cumsum_from :: "real \<Rightarrow> real list \<Rightarrow> real list" where
  "cumsum_from acc [] = []"
| "cumsum_from acc (x # xs) = (acc + x) # cumsum_from (acc + x) xs"

definition cumsum :: "real list \<Rightarrow> real list" where
  "cumsum xs = cumsum_from 0 xs"

text \<open>
  The handler of the readers: \<open>except Exception as e: ...; return pd.DataFrame()\<close>,
  or \<open>return None\<close>: the exception is replaced by a default value.
\<close>

definition read_guard :: "'a \<Rightarrow> 'a io \<Rightarrow> 'a io" where
  "read_guard dflt body s =
     (case body s of (Inr x, s') \<Rightarrow> (Inr x, s') | (Inl e, s') \<Rightarrow> (Inr dflt, s'))"

text \<open>
  \<open>get_trades\<close>. A row of the result is a trade with its \<open>cumulative_net_profit\<close>.
  The two calls that can raise are \<open>pd.read_sql_query\<close> and \<open>pd.to_datetime\<close>.
\<close>

definition where_trades ::
  "string option \<Rightarrow> string option \<Rightarrow> string option \<Rightarrow> string option \<Rightarrow> trade \<Rightarrow> bool" where
  "where_trades pair action start_date end_date r \<longleftrightarrow>
     eq_filter pair (trade_pair r) \<and> eq_filter action (trade_action r) \<and>
     from_date start_date (trade_timestamp r) \<and> to_date end_date (trade_timestamp r)"

definition select_trades ::
  "string option \<Rightarrow> string option \<Rightarrow> string option \<Rightarrow> string option \<Rightarrow> int option \<Rightarrow>
   trade list \<Rightarrow> trade list" where
  "select_trades pair action start_date end_date limit rows =
     apply_limit limit
       (order_desc trade_timestamp
          (filter (where_trades pair action start_date end_date) rows))"

definition out_timestamp :: "trade \<times> real \<Rightarrow> string" where
  "out_timestamp row = trade_timestamp (fst row)"

definition cumulative_net_profit :: "trade list \<Rightarrow> (trade \<times> real) list" where
  "cumulative_net_profit df =
     (let df_sorted = sort_values trade_timestamp df;
          running = cumsum (map (\<lambda>r. fillna0 (trade_net_profit r)) df_sorted)
      in sort_values_desc out_timestamp (zip df_sorted running))"

definition get_trades_body ::
  "string option \<Rightarrow> string option \<Rightarrow> string option \<Rightarrow> string option \<Rightarrow> int option \<Rightarrow>
   (trade \<times> real) list io" where
  "get_trades_body pair action start_date end_date limit =
     io_then ensure_connection
       (io_then external
          (\<lambda>s. let df = select_trades pair action start_date end_date limit (trades (view s)) in
             io_then external
               (ret (if df \<noteq> [] then cumulative_net_profit df else [])) s))"

definition get_trades ::
  "string option \<Rightarrow> string option \<Rightarrow> string option \<Rightarrow> string option \<Rightarrow> int option \<Rightarrow>
   (trade \<times> real) list io" where
  "get_trades pair action start_date end_date limit =
     read_guard [] (get_trades_body pair action start_date end_date limit)"

text \<open>
  \<open>get_market_scans\<close>. A row of the result is a scan with its \<open>indicators_dict\<close>:
  \<open>parse_indicators\<close> gives the empty dictionary for \<open>NULL\<close>, for the empty string
  and where \<open>json.loads\<close> raises.
\<close>

definition parse_indicators :: "json_lib \<Rightarrow> string option \<Rightarrow> indicators" where
  "parse_indicators J v =
     (case v of
        None \<Rightarrow> []
      | Some t \<Rightarrow> if t = [] then [] else (case loads J t of None \<Rightarrow> [] | Some d \<Rightarrow> d))"

definition select_scans ::
  "string option \<Rightarrow> string option \<Rightarrow> string option \<Rightarrow> string option \<Rightarrow> int option \<Rightarrow>
   scan list \<Rightarrow> scan list" where
  "select_scans pair signal start_date end_date limit rows =
     apply_limit limit
       (order_desc scan_timestamp
          (filter (\<lambda>r. eq_filter pair (scan_pair r) \<and> eq_filter_null signal (scan_signal r) \<and>
                       from_date start_date (scan_timestamp r) \<and>
                       to_date end_date (scan_timestamp r)) rows))"

definition get_market_scans_body ::
  "json_lib \<Rightarrow> string option \<Rightarrow> string option \<Rightarrow> string option \<Rightarrow> string option \<Rightarrow>
   int option \<Rightarrow> (scan \<times> indicators) list io" where
  "get_market_scans_body J pair signal start_date end_date limit =
     io_then ensure_connection
       (io_then external
          (\<lambda>s. let df = select_scans pair signal start_date end_date limit
                           (market_scans (view s)) in
             io_then external
               (ret (map (\<lambda>r. (r, parse_indicators J (scan_indicators r))) df)) s))"

definition get_market_scans ::
  "json_lib \<Rightarrow> string option \<Rightarrow> string option \<Rightarrow> string option \<Rightarrow> string option \<Rightarrow>
   int option \<Rightarrow> (scan \<times> indicators) list io" where
  "get_market_scans J pair signal start_date end_date limit =
     read_guard [] (get_market_scans_body J pair signal start_date end_date limit)"

text \<open>
  \<open>get_bot_status\<close>. A row of the result is a status with its \<open>active_pairs_list\<close>.
  \<open>str.split(',')\<close> cuts at every comma and gives one piece more than there are
  commas.
\<close>

fun split_acc :: "char \<Rightarrow> string \<Rightarrow> string \<Rightarrow> string list" where
  "split_acc c acc [] = [rev acc]"
| "split_acc c acc (x # xs) =
     (if x = c then rev acc # split_acc c [] xs else split_acc c (x # acc) xs)"

definition split :: "char \<Rightarrow> string \<Rightarrow> string list" where
  "split c text = split_acc c [] text"

definition parse_active_pairs :: "string option \<Rightarrow> string list" where
  "parse_active_pairs v =
     (case v of None \<Rightarrow> [] | Some t \<Rightarrow> if t = [] then [] else split CHR '','' t)"

definition select_status ::
  "string option \<Rightarrow> string option \<Rightarrow> string option \<Rightarrow> int option \<Rightarrow>
   status list \<Rightarrow> status list" where
  "select_status st start_date end_date limit rows =
     apply_limit limit
       (order_desc status_timestamp
          (filter (\<lambda>r. eq_filter st (status_status r) \<and>
                       from_date start_date (status_timestamp r) \<and>
                       to_date end_date (status_timestamp r)) rows))"

definition get_bot_status_body ::
  "string option \<Rightarrow> string option \<Rightarrow> string option \<Rightarrow> int option \<Rightarrow>
   (status \<times> string list) list io" where
  "get_bot_status_body st start_date end_date limit =
     io_then ensure_connection
       (io_then external
          (\<lambda>s. let df = select_status st start_date end_date limit (bot_status (view s)) in
             io_then external
               (ret (map (\<lambda>r. (r, parse_active_pairs (status_active_pairs r))) df)) s))"

definition get_bot_status ::
  "string option \<Rightarrow> string option \<Rightarrow> string option \<Rightarrow> int option \<Rightarrow>
   (status \<times> string list) list io" where
  "get_bot_status st start_date end_date limit =
     read_guard [] (get_bot_status_body st start_date end_date limit)"

text \<open>
  \<open>get_latest_scan\<close>: the first row of \<open>ORDER BY timestamp DESC LIMIT 1\<close>, or \<open>None\<close>.
  The entry \<open>indicators\<close> of the dictionary it returns is replaced by the parsed
  mapping only when the column is true in Python; a \<open>NULL\<close> or an empty string stays
  as it is.
\<close>

datatype indicators_entry = Parsed indicators | Raw "string option"

definition latest_indicators :: "json_lib \<Rightarrow> string option \<Rightarrow> indicators_entry" where
  "latest_indicators J v =
     (case v of
        None \<Rightarrow> Raw None
      | Some t \<Rightarrow>
          if t = [] then Raw (Some [])
          else (case loads J t of None \<Rightarrow> Parsed [] | Some d \<Rightarrow> Parsed d))"

definition fetchone :: "'a list \<Rightarrow> 'a option" where
  "fetchone rows = (case rows of [] \<Rightarrow> None | r # _ \<Rightarrow> Some r)"

definition get_latest_scan_body ::
  "json_lib \<Rightarrow> string option \<Rightarrow> (scan \<times> indicators_entry) option io" where
  "get_latest_scan_body J pair =
     io_then ensure_connection
       (io_then external
          (\<lambda>s. ret
             (case fetchone
                     (take 1 (order_desc scan_timestamp
                        (filter (\<lambda>r. eq_filter pair (scan_pair r)) (market_scans (view s))))) of
                None \<Rightarrow> None
              | Some r \<Rightarrow> Some (r, latest_indicators J (scan_indicators r))) s))"

definition get_latest_scan ::
  "json_lib \<Rightarrow> string option \<Rightarrow> (scan \<times> indicators_entry) option io" where
  "get_latest_scan J pair = read_guard None (get_latest_scan_body J pair)"

text \<open>\<open>get_latest_status\<close>: the newest status with its \<open>active_pairs_list\<close>, or \<open>None\<close>.\<close>

definition latest_active_pairs :: "string option \<Rightarrow> string list" where
  "latest_active_pairs v =
     (case v of None \<Rightarrow> [] | Some t \<Rightarrow> if t \<noteq> [] then split CHR '','' t else [])"

definition get_latest_status_body :: "(status \<times> string list) option io" where
  "get_latest_status_body =
     io_then ensure_connection
       (io_then external
          (\<lambda>s. ret
             (case fetchone (take 1 (order_desc status_timestamp (bot_status (view s)))) of
                None \<Rightarrow> None
              | Some r \<Rightarrow> Some (r, latest_active_pairs (status_active_pairs r))) s))"

definition get_latest_status :: "(status \<times> string list) option io" where
  "get_latest_status = read_guard None get_latest_status_body"

subsection \<open>Interchange: \<open>import_from_csv\<close>\<close>

text \<open>
  What \<open>pd.read_csv\<close> returns: the header and the rows. The cells of the columns the
  importer reads carry the type the schema gives the column, \<open>None\<close> is an empty cell
  (\<open>NaN\<close>, bound as \<open>NULL\<close>); the field of a column that is not in the header is not
  read. \<open>csv_timestamp\<close> is the text \<open>str\<close> gives for the parsed timestamp.
\<close>

record csv_row =
  csv_timestamp :: string
  csv_pair :: "string option"
  csv_action :: "string option"
  csv_price :: "real option"
  csv_quantity :: "real option"
  csv_profit :: "real option"
  csv_net_profit :: "real option"
  csv_profit_pct :: "real option"
  csv_order_id :: "string option"
  csv_strategy :: "string option"

record frame =
  frame_columns :: "string list"
  frame_rows :: "csv_row list"

definition required_columns :: "string list" where
  "required_columns = [''timestamp'', ''pair'', ''action'', ''price'', ''quantity'']"

text \<open>
  \<open>column_mapping\<close>: only \<open>profit\<close> is renamed; \<open>df['net_profit'] = df['profit']\<close>
  overwrites the column or appends it.
\<close>

definition map_columns :: "frame \<Rightarrow> frame" where
  "map_columns df =
     (if ''profit'' \<in> set (frame_columns df)
      then \<lparr>frame_columns =
               (if ''net_profit'' \<in> set (frame_columns df) then frame_columns df
                else frame_columns df @ [''net_profit'']),
            frame_rows = map (\<lambda>r. r\<lparr>csv_net_profit := csv_profit r\<rparr>) (frame_rows df)\<rparr>
      else df)"

text \<open>
  The values of one \<open>INSERT\<close>: an optional column is bound only if the frame has it,
  and \<open>NULL\<close> in a \<open>NOT NULL\<close> column makes the statement raise.
\<close>

definition bind_record :: "string list \<Rightarrow> string \<Rightarrow> nat \<Rightarrow> csv_row \<Rightarrow> error + trade" where
  "bind_record cols now i r =
     (case (csv_pair r, csv_action r, csv_price r, csv_quantity r) of
        (Some p, Some a, Some pr, Some q) \<Rightarrow>
          Inr \<lparr>trade_id = i, trade_timestamp = csv_timestamp r, trade_pair = p,
               trade_action = a, trade_price = pr, trade_quantity = q,
               trade_net_profit =
                 (if ''net_profit'' \<in> set cols then csv_net_profit r else None),
               trade_profit_pct =
                 (if ''profit_pct'' \<in> set cols then csv_profit_pct r else None),
               trade_order_id = (if ''order_id'' \<in> set cols then csv_order_id r else None),
               trade_strategy = (if ''strategy'' \<in> set cols then csv_strategy r else None),
               trade_created_at = now\<rparr>
      | _ \<Rightarrow> Inl (IntegrityError ''NOT NULL constraint failed''))"

fun insert_records :: "string list \<Rightarrow> string \<Rightarrow> nat \<Rightarrow> csv_row list \<Rightarrow> nat io" where
  "insert_records cols now cnt [] = ret cnt"
| "insert_records cols now cnt (r # rs) =
     (\<lambda>s. case bind_record cols now (next_id (map trade_id (trades (view s)))) r of
         Inl e \<Rightarrow> io_then external (raise e) s
       | Inr t \<Rightarrow> io_then (insert_trade t) (insert_records cols now (Suc cnt) rs) s)"

definition import_from_csv_body :: "string \<Rightarrow> frame \<Rightarrow> nat io" where
  "import_from_csv_body now df =
     io_then ensure_connection
       (io_then external
          (if \<not> list_all (\<lambda>col. col \<in> set (frame_columns df)) required_columns
           then ret 0
           else io_then external
             (let df' = map_columns df in
              io_bind (insert_records (frame_columns df') now 0 (frame_rows df'))
                (\<lambda>cnt. io_then commit (ret cnt)))))"

text \<open>The handler: \<open>except Exception as e: ...; if self.conn: self.conn.rollback(); return 0\<close>.\<close>

definition import_from_csv :: "string \<Rightarrow> frame \<Rightarrow> nat io" where
  "import_from_csv now df s =
     (case import_from_csv_body now df s of
        (Inr cnt, s') \<Rightarrow> (Inr cnt, s')
      | (Inl e, s') \<Rightarrow> (Inr 0, if conn s' then rollback s' else s'))"

subsection \<open>Construction and the registry\<close>

text \<open>
  \<open>create_tables\<close>: three \<open>CREATE TABLE IF NOT EXISTS\<close>, three
  \<open>CREATE INDEX IF NOT EXISTS\<close>, and the commit. None of them touches a row.
\<close>

definition create_tables :: "unit io" where
  "create_tables =
     io_then external (io_then external (io_then external
       (io_then external (io_then external (io_then external commit)))))"

definition path_join :: "string \<Rightarrow> string \<Rightarrow> string" where
  "path_join dir name =
     (if dir = [] then name
      else if last dir = CHR ''/'' then dir @ name
      else dir @ CHR ''/'' # name)"

text \<open>
  \<open>TradingDatabase.__init__\<close>. \<open>disk\<close> gives the rows of the file at a location (a new
  file has none), \<open>cwd\<close> is \<open>os.getcwd()\<close>, \<open>fs\<close> schedules the calls into \<open>sqlite3\<close>
  of the handle.
\<close>

definition init ::
  "(string \<Rightarrow> tables) \<Rightarrow> string \<Rightarrow> error option list \<Rightarrow> string option \<Rightarrow> error + db" where
  "init disk cwd fs file =
     (let path = (case file of None \<Rightarrow> path_join cwd ''trading_bot.db'' | Some f \<Rightarrow> f);
          self = \<lparr>db_file = path, conn = False, stored = disk path, txn = None, faults = fs\<rparr>
      in case io_then connect create_tables self of
           (Inl e, _) \<Rightarrow> Inl e
         | (Inr _, s) \<Rightarrow> Inr s)"

text \<open>
  \<open>get_db\<close> and the module's global \<open>_db_instance\<close>. Objects live in \<open>objects\<close>; a
  handle is the address of its object, so that two handles are the same object
  exactly when they are equal. When the constructor raises, the global stays \<open>None\<close>.
\<close>

record registry =
  db_instance :: "nat option"
  objects :: "db list"

definition get_db ::
  "(string \<Rightarrow> tables) \<Rightarrow> string \<Rightarrow> error option list \<Rightarrow> string option \<Rightarrow> registry \<Rightarrow>
   (error + nat) \<times> registry" where
  "get_db disk cwd fs file g =
     (case db_instance g of
        None \<Rightarrow>
          (case init disk cwd fs file of
             Inl e \<Rightarrow> (Inl e, g)
           | Inr obj \<Rightarrow>
               (Inr (length (objects g)),
                g\<lparr>db_instance := Some (length (objects g)), objects := objects g @ [obj]\<rparr>))
      | Some h \<Rightarrow> (Inr h, g))"

subsection \<open>Vocabulary of the statements\<close>

text \<open>
  The first fault among the next \<open>n\<close> calls of a schedule, and how many calls are
  made when the caller stops at the first one that raises.
\<close>

fun first_fault :: "nat \<Rightarrow> error option list \<Rightarrow> error option" where
  "first_fault 0 fs = None"
| "first_fault (Suc n) [] = None"
| "first_fault (Suc n) (None # fs) = first_fault n fs"
| "first_fault (Suc n) (Some e # fs) = Some e"

fun consumed :: "nat \<Rightarrow> error option list \<Rightarrow> nat" where
  "consumed 0 fs = 0"
| "consumed (Suc n) [] = 0"
| "consumed (Suc n) (None # fs) = Suc (consumed n fs)"
| "consumed (Suc n) (Some e # fs) = Suc 0"

text \<open>
  A writer calls \<open>execute\<close> and \<open>commit\<close>; a handle without a connection calls
  \<open>sqlite3.connect\<close> and the \<open>PRAGMA\<close> before.
\<close>

definition write_calls :: "db \<Rightarrow> nat" where
  "write_calls s = (if conn s then 2 else 4)"




text \<open>The handle of the module's self test, open on an empty file, and closed.\<close>

definition fresh :: db where
  "fresh = \<lparr>db_file = ''test_trading.db'', conn = True, stored = empty_tables,
            txn = None, faults = []\<rparr>"

definition closed_handle :: db where
  "closed_handle = close fresh"

definition disk_error :: error where
  "disk_error = OperationalError ''disk I/O error''"

text \<open>
  A file without the column \<open>price\<close>, and the registry of a process that has not
  called \<open>get_db\<close> yet.
\<close>

definition price_missing :: frame where
  "price_missing =
     \<lparr>frame_columns = [''timestamp'', ''pair'', ''action'', ''quantity''],
      frame_rows =
        [\<lparr>csv_timestamp = ''2024-01-01 00:00:00'', csv_pair = Some ''BTCUSDT'',
          csv_action = Some ''BUY'', csv_price = None, csv_quantity = Some 0.1,
          csv_profit = None, csv_net_profit = None, csv_profit_pct = None,
          csv_order_id = None, csv_strategy = None\<rparr>]\<rparr>"

definition no_registry :: registry where
  "no_registry = \<lparr>db_instance = None, objects = []\<rparr>"

text \<open>A \<open>json\<close> that knows the empty object only, for the examples with no indicators.\<close>

definition json_empty_object :: json_lib where
  "json_empty_object =
     \<lparr>dumps = (\<lambda>d. ''{}''), loads = (\<lambda>t. if t = ''{}'' then Some [] else None)\<rparr>"






section \<open>Properties\<close>

lemmas io_defs = ret_def raise_def io_bind_def io_then_def external_def modify_def
  connect_def ensure_connection_def commit_def rollback_def write_guard_def view_def

lemmas io_splits = list.splits option.splits sum.splits prod.splits if_splits

subsection \<open>Writes are atomic\<close>

lemma log_trade_atomic:
  assumes "txn s = None"
  shows "(\<exists>i s'. log_trade now pair action price quantity np pp oid strat s = (Inr i, s') \<and>
            stored s' = (stored s)\<lparr>trades := trades (stored s) @
               [new_trade i now pair action price quantity np pp oid strat]\<rparr> \<and>
            txn s' = None)
       \<or> (\<exists>e s'. log_trade now pair action price quantity np pp oid strat s = (Inl e, s') \<and>
            stored s' = stored s \<and> txn s' = None \<and> Some e \<in> set (faults s))"
  using assms unfolding log_trade_def insert_trade_def
  by (auto simp: io_defs Let_def split: io_splits)

lemma log_market_scan_atomic:
  assumes "txn s = None"
  shows "(\<exists>i s'. log_market_scan J now pair signal price strat iv ind s = (Inr i, s') \<and>
            stored s' = (stored s)\<lparr>market_scans := market_scans (stored s) @
               [new_scan i now pair signal price strat iv (indicators_str J ind)]\<rparr> \<and>
            txn s' = None)
       \<or> (\<exists>e s'. log_market_scan J now pair signal price strat iv ind s = (Inl e, s') \<and>
            stored s' = stored s \<and> txn s' = None \<and> Some e \<in> set (faults s))"
  using assms unfolding log_market_scan_def insert_scan_def
  by (auto simp: io_defs Let_def split: io_splits)

lemma log_bot_status_atomic:
  assumes "txn s = None"
  shows "(\<exists>i s'. log_bot_status now st av pairs msg s = (Inr i, s') \<and>
            stored s' = (stored s)\<lparr>bot_status := bot_status (stored s) @
               [new_status i now st av (active_pairs_str pairs) msg]\<rparr> \<and>
            txn s' = None)
       \<or> (\<exists>e s'. log_bot_status now st av pairs msg s = (Inl e, s') \<and>
            stored s' = stored s \<and> txn s' = None \<and> Some e \<in> set (faults s))"
  using assms unfolding log_bot_status_def insert_status_def
  by (auto simp: io_defs Let_def split: io_splits)

text \<open>
  Claim C8. A call of \<open>log_trade\<close>, \<open>log_market_scan\<close> or \<open>log_bot_status\<close> on a
  handle with no transaction left open has one of two outcomes. Either it returns
  the identifier of a row, and the file holds the rows it held before and that one
  row, complete, at the end of its table. Or it raises, the error is one that
  \<open>sqlite3\<close> raised during the call, and the file holds what it held before. In both
  cases no transaction stays open, so that the next call starts as this one did.
\<close>

theorem recorder_commits_or_rolls_back:
  assumes "txn s = None"
  shows
    "((\<exists>i s'. log_trade now pair action price quantity np pp oid strat s = (Inr i, s') \<and>
          stored s' = (stored s)\<lparr>trades := trades (stored s) @
             [new_trade i now pair action price quantity np pp oid strat]\<rparr> \<and>
          txn s' = None)
      \<or> (\<exists>e s'. log_trade now pair action price quantity np pp oid strat s = (Inl e, s') \<and>
          stored s' = stored s \<and> txn s' = None \<and> Some e \<in> set (faults s)))
     \<and>
     ((\<exists>i s'. log_market_scan J now pair signal price strat iv ind s = (Inr i, s') \<and>
          stored s' = (stored s)\<lparr>market_scans := market_scans (stored s) @
             [new_scan i now pair signal price strat iv (indicators_str J ind)]\<rparr> \<and>
          txn s' = None)
      \<or> (\<exists>e s'. log_market_scan J now pair signal price strat iv ind s = (Inl e, s') \<and>
          stored s' = stored s \<and> txn s' = None \<and> Some e \<in> set (faults s)))
     \<and>
     ((\<exists>i s'. log_bot_status now st av pairs msg s = (Inr i, s') \<and>
          stored s' = (stored s)\<lparr>bot_status := bot_status (stored s) @
             [new_status i now st av (active_pairs_str pairs) msg]\<rparr> \<and>
          txn s' = None)
      \<or> (\<exists>e s'. log_bot_status now st av pairs msg s = (Inl e, s') \<and>
          stored s' = stored s \<and> txn s' = None \<and> Some e \<in> set (faults s)))"
  by (intro conjI log_trade_atomic log_market_scan_atomic log_bot_status_atomic assms)

text \<open>
  The theorem at the handle of the self test, once with a commit that raises and
  once with no fault: the first call raises that error and leaves the file empty,
  the second returns the identifier 1 and the file holds the trade.
\<close>

theorem recorder_commits_or_rolls_back_witness:
  "txn (fresh\<lparr>faults := [None, Some disk_error]\<rparr>) = None \<and>
   log_trade ''2024-01-01 00:00:00'' ''BTCUSDT'' ''BUY'' 50000 0.1 None None None (Some ''TEST'')
       (fresh\<lparr>faults := [None, Some disk_error]\<rparr>)
     = (Inl disk_error, fresh) \<and>
   log_trade ''2024-01-01 00:00:00'' ''BTCUSDT'' ''BUY'' 50000 0.1 None None None (Some ''TEST'')
       fresh
     = (Inr 1, fresh\<lparr>stored := empty_tables\<lparr>trades :=
          [new_trade 1 ''2024-01-01 00:00:00'' ''BTCUSDT'' ''BUY'' 50000 0.1 None None None
             (Some ''TEST'')]\<rparr>\<rparr>)"
proof -
  let ?s = "fresh\<lparr>faults := [None, Some disk_error]\<rparr>"
  have h: "txn ?s = None" by (simp add: fresh_def)
  have 1: "log_trade ''2024-01-01 00:00:00'' ''BTCUSDT'' ''BUY'' 50000 0.1 None None None
       (Some ''TEST'') ?s = (Inl disk_error, fresh)"
    unfolding log_trade_def insert_trade_def
    by (simp add: io_defs Let_def fresh_def next_id_def)
  have 2: "log_trade ''2024-01-01 00:00:00'' ''BTCUSDT'' ''BUY'' 50000 0.1 None None None
       (Some ''TEST'') fresh
     = (Inr 1, fresh\<lparr>stored := empty_tables\<lparr>trades :=
          [new_trade 1 ''2024-01-01 00:00:00'' ''BTCUSDT'' ''BUY'' 50000 0.1 None None None
             (Some ''TEST'')]\<rparr>\<rparr>)"
    unfolding log_trade_def insert_trade_def
    by (simp add: io_defs Let_def fresh_def next_id_def empty_tables_def)
  from h 1 2 recorder_commits_or_rolls_back [OF h] show ?thesis by simp
qed

subsection \<open>Writes stop at the first failure\<close>

lemma log_trade_once:
  assumes "txn s = None"
  shows "fst (log_trade now pair action price quantity np pp oid strat s) =
     (case first_fault (write_calls s) (faults s) of
        Some e \<Rightarrow> Inl e
      | None \<Rightarrow> Inr (next_id (map trade_id (trades (stored s)))))
   \<and> faults (snd (log_trade now pair action price quantity np pp oid strat s)) =
      drop (consumed (write_calls s) (faults s)) (faults s)
   \<and> (conn (snd (log_trade now pair action price quantity np pp oid strat s)) \<longleftrightarrow>
        conn s \<or> first_fault 1 (faults s) = None)"
  using assms unfolding log_trade_def insert_trade_def write_calls_def
  by (auto simp: io_defs Let_def numeral_2_eq_2 numeral_eq_Suc split: io_splits)

lemma log_market_scan_once:
  assumes "txn s = None"
  shows "fst (log_market_scan J now pair signal price strat iv ind s) =
     (case first_fault (write_calls s) (faults s) of
        Some e \<Rightarrow> Inl e
      | None \<Rightarrow> Inr (next_id (map scan_id (market_scans (stored s)))))
   \<and> faults (snd (log_market_scan J now pair signal price strat iv ind s)) =
      drop (consumed (write_calls s) (faults s)) (faults s)
   \<and> (conn (snd (log_market_scan J now pair signal price strat iv ind s)) \<longleftrightarrow>
        conn s \<or> first_fault 1 (faults s) = None)"
  using assms unfolding log_market_scan_def insert_scan_def write_calls_def
  by (auto simp: io_defs Let_def numeral_2_eq_2 numeral_eq_Suc split: io_splits)

lemma log_bot_status_once:
  assumes "txn s = None"
  shows "fst (log_bot_status now st av pairs msg s) =
     (case first_fault (write_calls s) (faults s) of
        Some e \<Rightarrow> Inl e
      | None \<Rightarrow> Inr (next_id (map status_id (bot_status (stored s)))))
   \<and> faults (snd (log_bot_status now st av pairs msg s)) =
      drop (consumed (write_calls s) (faults s)) (faults s)
   \<and> (conn (snd (log_bot_status now st av pairs msg s)) \<longleftrightarrow>
        conn s \<or> first_fault 1 (faults s) = None)"
  using assms unfolding log_bot_status_def insert_status_def write_calls_def
  by (auto simp: io_defs Let_def numeral_2_eq_2 numeral_eq_Suc split: io_splits)

text \<open>
  Claim C3, as the spec states it, fails. The handle has lost its connection;
  \<open>sqlite3.connect\<close> and the \<open>PRAGMA\<close> return, the \<open>INSERT\<close> raises once, and every
  later call would return. \<open>log_trade\<close> raises that first error; the same call
  made again by the caller returns the identifier 1, so a retry would have
  succeeded and none was made.
\<close>

theorem no_retry_counterexample:
  "fst (log_trade ''2024-01-01 00:00:00'' ''BTCUSDT'' ''BUY'' 50000 0.1 None None None None
          (closed_handle\<lparr>faults := [None, None, Some disk_error]\<rparr>)) = Inl disk_error
   \<and> fst (log_trade ''2024-01-01 00:00:00'' ''BTCUSDT'' ''BUY'' 50000 0.1 None None None None
         (snd (log_trade ''2024-01-01 00:00:00'' ''BTCUSDT'' ''BUY'' 50000 0.1 None None None
                 None (closed_handle\<lparr>faults := [None, None, Some disk_error]\<rparr>)))) = Inr 1"
  unfolding log_trade_def insert_trade_def
  by (simp add: io_defs Let_def fresh_def closed_handle_def close_def next_id_def
      empty_tables_def)

text \<open>
  Claim C3, amended. On a handle with no transaction left open, each writer makes
  its calls in order and stops at the first that raises: it raises that error,
  and it returns the new identifier when none of its calls raises. It makes no
  call after a failure (the schedule is consumed up to the failing call and no
  further), so nothing is tried twice. A connection is established exactly when the
  handle has none, before the write; a handle that has one is used as it is. After
  the call the handle has a connection if it had one or if \<open>sqlite3.connect\<close>
  returned.
\<close>

theorem write_attempted_once:
  assumes "txn s = None"
  shows
    "(fst (log_trade now pair action price quantity np pp oid strat s) =
       (case first_fault (write_calls s) (faults s) of
          Some e \<Rightarrow> Inl e
        | None \<Rightarrow> Inr (next_id (map trade_id (trades (stored s)))))
      \<and> faults (snd (log_trade now pair action price quantity np pp oid strat s)) =
          drop (consumed (write_calls s) (faults s)) (faults s)
      \<and> (conn (snd (log_trade now pair action price quantity np pp oid strat s)) \<longleftrightarrow>
          conn s \<or> first_fault 1 (faults s) = None))
     \<and>
     (fst (log_market_scan J now pair signal price strat iv ind s) =
       (case first_fault (write_calls s) (faults s) of
          Some e \<Rightarrow> Inl e
        | None \<Rightarrow> Inr (next_id (map scan_id (market_scans (stored s)))))
      \<and> faults (snd (log_market_scan J now pair signal price strat iv ind s)) =
          drop (consumed (write_calls s) (faults s)) (faults s)
      \<and> (conn (snd (log_market_scan J now pair signal price strat iv ind s)) \<longleftrightarrow>
          conn s \<or> first_fault 1 (faults s) = None))
     \<and>
     (fst (log_bot_status now st av pairs msg s) =
       (case first_fault (write_calls s) (faults s) of
          Some e \<Rightarrow> Inl e
        | None \<Rightarrow> Inr (next_id (map status_id (bot_status (stored s)))))
      \<and> faults (snd (log_bot_status now st av pairs msg s)) =
          drop (consumed (write_calls s) (faults s)) (faults s)
      \<and> (conn (snd (log_bot_status now st av pairs msg s)) \<longleftrightarrow>
          conn s \<or> first_fault 1 (faults s) = None))"
  by (intro conjI log_trade_once [THEN conjunct1] log_trade_once [THEN conjunct2, THEN conjunct1]
      log_trade_once [THEN conjunct2, THEN conjunct2]
      log_market_scan_once [THEN conjunct1] log_market_scan_once [THEN conjunct2, THEN conjunct1]
      log_market_scan_once [THEN conjunct2, THEN conjunct2]
      log_bot_status_once [THEN conjunct1] log_bot_status_once [THEN conjunct2, THEN conjunct1]
      log_bot_status_once [THEN conjunct2, THEN conjunct2] assms)

text \<open>
  The theorem at the closed handle whose \<open>INSERT\<close> raises: four calls are due, the
  third is the first fault, the writer raises it, three calls were made, and the
  connection is back.
\<close>

theorem write_attempted_once_witness:
  "txn (closed_handle\<lparr>faults := [None, None, Some disk_error]\<rparr>) = None \<and>
   write_calls (closed_handle\<lparr>faults := [None, None, Some disk_error]\<rparr>) = 4 \<and>
   fst (log_bot_status ''2024-01-01 00:00:00'' ''RUNNING'' None None None
          (closed_handle\<lparr>faults := [None, None, Some disk_error]\<rparr>)) = Inl disk_error \<and>
   faults (snd (log_bot_status ''2024-01-01 00:00:00'' ''RUNNING'' None None None
          (closed_handle\<lparr>faults := [None, None, Some disk_error]\<rparr>))) = [] \<and>
   conn (snd (log_bot_status ''2024-01-01 00:00:00'' ''RUNNING'' None None None
          (closed_handle\<lparr>faults := [None, None, Some disk_error]\<rparr>)))"
proof -
  let ?s = "closed_handle\<lparr>faults := [None, None, Some disk_error]\<rparr>"
  have h: "txn ?s = None"
    by (simp add: closed_handle_def close_def fresh_def)
  have c: "write_calls ?s = 4" "conn ?s = False" "faults ?s = [None, None, Some disk_error]"
    by (simp_all add: write_calls_def closed_handle_def close_def fresh_def)
  have f: "first_fault 4 [None, None, Some disk_error] = Some disk_error"
    "consumed 4 [None, None, Some disk_error] = 3"
    "first_fault 1 [None, None, Some disk_error] = None"
    by (simp_all add: numeral_eq_Suc)
  from write_attempted_once [OF h, where now = "''2024-01-01 00:00:00''" and st = "''RUNNING''"
      and av = None and pairs = None and msg = None]
  show ?thesis using h by (simp add: c f)
qed

subsection \<open>Reads absorb every failure\<close>








subsection \<open>A closed handle reconnects\<close>

lemma log_trade_after_close:
  assumes "faults s = []"
  shows "(\<exists>i s'. log_trade now pair action price quantity np pp oid strat (close s) = (Inr i, s') \<and>
       conn s' \<and>
       stored s' = (stored s)\<lparr>trades := trades (stored s) @
         [new_trade i now pair action price quantity np pp oid strat]\<rparr>)"
  using assms unfolding log_trade_def insert_trade_def close_def
  by (auto simp: io_defs Let_def split: io_splits)

lemma log_market_scan_after_close:
  assumes "faults s = []"
  shows "(\<exists>i s'. log_market_scan J now pair signal price strat iv ind (close s) = (Inr i, s') \<and>
       conn s' \<and>
       stored s' = (stored s)\<lparr>market_scans := market_scans (stored s) @
         [new_scan i now pair signal price strat iv (indicators_str J ind)]\<rparr>)"
  using assms unfolding log_market_scan_def insert_scan_def close_def
  by (auto simp: io_defs Let_def split: io_splits)

lemma log_bot_status_after_close:
  assumes "faults s = []"
  shows "(\<exists>i s'. log_bot_status now st av pairs msg (close s) = (Inr i, s') \<and>
       conn s' \<and>
       stored s' = (stored s)\<lparr>bot_status := bot_status (stored s) @
         [new_status i now st av (active_pairs_str pairs) msg]\<rparr>)"
  using assms unfolding log_bot_status_def insert_status_def close_def
  by (auto simp: io_defs Let_def split: io_splits)

lemma get_trades_after_close:
  assumes "faults s = []"
  shows "(\<exists>rows s'. get_trades_body fpair faction sd ed limit (close s) = (Inr rows, s') \<and>
       get_trades fpair faction sd ed limit (close s) = (Inr rows, s') \<and> conn s')"
  using assms unfolding get_trades_def get_trades_body_def read_guard_def close_def
  by (auto simp: io_defs Let_def split: io_splits)

lemma get_market_scans_after_close:
  assumes "faults s = []"
  shows "(\<exists>rows s'. get_market_scans_body J fpair fsignal sd ed limit (close s) = (Inr rows, s') \<and>
       get_market_scans J fpair fsignal sd ed limit (close s) = (Inr rows, s') \<and> conn s')"
  using assms unfolding get_market_scans_def get_market_scans_body_def read_guard_def close_def
  by (auto simp: io_defs Let_def split: io_splits)

lemma get_bot_status_after_close:
  assumes "faults s = []"
  shows "(\<exists>rows s'. get_bot_status_body fstatus sd ed limit (close s) = (Inr rows, s') \<and>
       get_bot_status fstatus sd ed limit (close s) = (Inr rows, s') \<and> conn s')"
  using assms unfolding get_bot_status_def get_bot_status_body_def read_guard_def close_def
  by (auto simp: io_defs Let_def split: io_splits)

lemma get_latest_scan_after_close:
  assumes "faults s = []"
  shows "(\<exists>row s'. get_latest_scan_body J fpair (close s) = (Inr row, s') \<and>
       get_latest_scan J fpair (close s) = (Inr row, s') \<and> conn s')"
  using assms unfolding get_latest_scan_def get_latest_scan_body_def read_guard_def close_def
  by (auto simp: io_defs Let_def split: io_splits)

lemma get_latest_status_after_close:
  assumes "faults s = []"
  shows "(\<exists>row s'. get_latest_status_body (close s) = (Inr row, s') \<and>
       get_latest_status (close s) = (Inr row, s') \<and> conn s')"
  using assms unfolding get_latest_status_def get_latest_status_body_def read_guard_def close_def
  by (auto simp: io_defs Let_def split: io_splits)

text \<open>
  Claim C10. \<open>close\<close> leaves the handle without a connection, and it can be called
  again. When \<open>sqlite3\<close> and \<open>pandas\<close> raise nothing, every operation of the
  Recorder and of the Query Engine called on a closed handle connects first and
  completes: a writer returns an identifier and the file holds the new row, a
  reader returns what the body of its \<open>try\<close> returns (no failure was absorbed),
  and afterwards the handle has a connection.
\<close>

theorem closed_handle_reconnects:
  assumes "faults s = []"
  shows
    "\<not> conn (close s) \<and> close (close s) = close s
     \<and>
     (\<exists>i s'. log_trade now pair action price quantity np pp oid strat (close s) = (Inr i, s') \<and>
         conn s' \<and>
         stored s' = (stored s)\<lparr>trades := trades (stored s) @
           [new_trade i now pair action price quantity np pp oid strat]\<rparr>)
     \<and>
     (\<exists>i s'. log_market_scan J now pair signal price strat iv ind (close s) = (Inr i, s') \<and>
         conn s' \<and>
         stored s' = (stored s)\<lparr>market_scans := market_scans (stored s) @
           [new_scan i now pair signal price strat iv (indicators_str J ind)]\<rparr>)
     \<and>
     (\<exists>i s'. log_bot_status now st av pairs msg (close s) = (Inr i, s') \<and>
         conn s' \<and>
         stored s' = (stored s)\<lparr>bot_status := bot_status (stored s) @
           [new_status i now st av (active_pairs_str pairs) msg]\<rparr>)
     \<and>
     (\<exists>rows s'. get_trades_body fpair faction sd ed limit (close s) = (Inr rows, s') \<and>
         get_trades fpair faction sd ed limit (close s) = (Inr rows, s') \<and> conn s')
     \<and>
     (\<exists>rows s'. get_market_scans_body J fpair fsignal sd ed limit (close s) = (Inr rows, s') \<and>
         get_market_scans J fpair fsignal sd ed limit (close s) = (Inr rows, s') \<and> conn s')
     \<and>
     (\<exists>rows s'. get_bot_status_body fstatus sd ed limit (close s) = (Inr rows, s') \<and>
         get_bot_status fstatus sd ed limit (close s) = (Inr rows, s') \<and> conn s')
     \<and>
     (\<exists>row s'. get_latest_scan_body J fpair (close s) = (Inr row, s') \<and>
         get_latest_scan J fpair (close s) = (Inr row, s') \<and> conn s')
     \<and>
     (\<exists>row s'. get_latest_status_body (close s) = (Inr row, s') \<and>
         get_latest_status (close s) = (Inr row, s') \<and> conn s')"
  using assms
  by (intro conjI log_trade_after_close log_market_scan_after_close log_bot_status_after_close
      get_trades_after_close get_market_scans_after_close get_bot_status_after_close
      get_latest_scan_after_close get_latest_status_after_close)
    (simp_all add: close_def)

text \<open>
  The theorem at the handle of the self test, closed: \<open>log_trade\<close> returns the
  identifier 1 and \<open>get_latest_status\<close> finds no status, both with the connection
  back.
\<close>

theorem closed_handle_reconnects_witness:
  "faults fresh = [] \<and> \<not> conn (close fresh) \<and>
   log_trade ''2024-01-01 00:00:00'' ''BTCUSDT'' ''BUY'' 50000 0.1 None None None None
       (close fresh)
     = (Inr 1, fresh\<lparr>stored := empty_tables\<lparr>trades :=
          [new_trade 1 ''2024-01-01 00:00:00'' ''BTCUSDT'' ''BUY'' 50000 0.1 None None None
             None]\<rparr>\<rparr>) \<and>
   get_latest_status (close fresh) = (Inr None, fresh)"
proof -
  have h: "faults fresh = []"
    by (simp add: fresh_def)
  have 1: "log_trade ''2024-01-01 00:00:00'' ''BTCUSDT'' ''BUY'' 50000 0.1 None None None None
       (close fresh)
     = (Inr 1, fresh\<lparr>stored := empty_tables\<lparr>trades :=
          [new_trade 1 ''2024-01-01 00:00:00'' ''BTCUSDT'' ''BUY'' 50000 0.1 None None None
             None]\<rparr>\<rparr>)"
    unfolding log_trade_def insert_trade_def
    by (simp add: io_defs Let_def fresh_def close_def next_id_def empty_tables_def)
  have 2: "get_latest_status (close fresh) = (Inr None, fresh)"
    unfolding get_latest_status_def get_latest_status_body_def read_guard_def
    by (simp add: io_defs fresh_def close_def empty_tables_def order_desc_def fetchone_def)
  from closed_handle_reconnects [OF h] h 1 2 show ?thesis
    by simp
qed

subsection \<open>Import of a file that lacks a required column\<close>

text \<open>
  Claim C5. When the header of the file lacks one of \<open>timestamp\<close>, \<open>pair\<close>,
  \<open>action\<close>, \<open>price\<close>, \<open>quantity\<close>, \<open>import_from_csv\<close> returns 0 (it returns, it does
  not raise), and the file of the store holds what it held before; with no
  transaction left open before the call, the connection reads the same rows after
  it. This holds whatever the calls into \<open>sqlite3\<close> and \<open>pandas\<close> do.
\<close>

theorem import_missing_column:
  assumes "\<exists>col\<in>set required_columns. col \<notin> set (frame_columns df)"
  shows "fst (import_from_csv now df s) = Inr 0 \<and>
         stored (snd (import_from_csv now df s)) = stored s \<and>
         (txn s = None \<longrightarrow> view (snd (import_from_csv now df s)) = view s)"
proof -
  from assms have m: "\<not> list_all (\<lambda>col. col \<in> set (frame_columns df)) required_columns"
    by (auto simp: list_all_iff)
  show ?thesis
    unfolding import_from_csv_def import_from_csv_body_def
    by (auto simp: m io_defs split: io_splits)
qed

theorem import_missing_column_witness:
  "(\<exists>col\<in>set required_columns. col \<notin> set (frame_columns price_missing)) \<and>
   import_from_csv ''2024-02-02 00:00:00'' price_missing fresh = (Inr 0, fresh)"
proof -
  have h: "\<exists>col\<in>set required_columns. col \<notin> set (frame_columns price_missing)"
    by (simp add: required_columns_def price_missing_def)
  have e: "import_from_csv ''2024-02-02 00:00:00'' price_missing fresh = (Inr 0, fresh)"
    unfolding import_from_csv_def import_from_csv_body_def
    by (simp add: io_defs fresh_def required_columns_def price_missing_def)
  from import_missing_column [OF h, of "''2024-02-02 00:00:00''" fresh] h e
  show ?thesis by simp
qed

subsection \<open>The registry\<close>

lemma external_db_file: "db_file (snd (external s)) = db_file s"
  by (simp add: external_def split: list.splits option.splits)

lemma io_then_db_file:
  assumes "\<And>s. db_file (snd (m s)) = db_file s" "\<And>s. db_file (snd (k s)) = db_file s"
  shows "db_file (snd (io_then m k s)) = db_file s"
proof (cases "m s")
  case (Pair r s')
  with assms(1) [of s] have "db_file s' = db_file s" by simp
  with Pair assms(2) [of s'] show ?thesis
    by (cases r) (simp_all add: io_then_def io_bind_def)
qed

lemma modify_db_file:
  assumes "\<And>s. db_file (f s) = db_file s"
  shows "db_file (snd (modify f s)) = db_file s"
  by (simp add: modify_def assms)

lemma commit_db_file: "db_file (snd (commit s)) = db_file s"
  unfolding commit_def
  by (intro io_then_db_file external_db_file modify_db_file) simp

lemma connect_db_file: "db_file (snd (connect s)) = db_file s"
  unfolding connect_def
  by (intro io_then_db_file external_db_file modify_db_file) simp

lemma create_tables_db_file: "db_file (snd (create_tables s)) = db_file s"
  unfolding create_tables_def
  by (intro io_then_db_file external_db_file commit_db_file)

lemma init_db_file:
  assumes "init disk cwd fs loc = Inr obj"
  shows "db_file obj =
    (case loc of None \<Rightarrow> path_join cwd ''trading_bot.db'' | Some f \<Rightarrow> f)"
proof -
  let ?path = "case loc of None \<Rightarrow> path_join cwd ''trading_bot.db'' | Some f \<Rightarrow> f"
  let ?self = "\<lparr>db_file = ?path, conn = False, stored = disk ?path, txn = None, faults = fs\<rparr>"
  have "db_file (snd (io_then connect create_tables ?self)) = db_file ?self"
    by (intro io_then_db_file connect_db_file create_tables_db_file)
  with assms show ?thesis
    by (auto simp: init_def Let_def split: prod.splits sum.splits)
qed

text \<open>
  Claim C6. When a call of \<open>get_db\<close> returns a handle, the next call returns the
  same handle (the same object, at the same address), whatever location, working
  directory and behaviour of \<open>sqlite3\<close> the second call meets, and it changes
  neither the registry nor any object. When the first call found the registry
  empty, the handle is a new object and its location is the one the first call
  was given, or \<open>trading_bot.db\<close> in the working directory of the first call.
\<close>

theorem get_db_returns_first_handle:
  assumes "get_db disk cwd fs loc g = (Inr h, g')"
  shows "get_db disk2 cwd2 fs2 loc2 g' = (Inr h, g') \<and>
         (db_instance g = None \<longrightarrow>
            h = length (objects g) \<and> length (objects g') = Suc h \<and>
            db_file (objects g' ! h) =
              (case loc of None \<Rightarrow> path_join cwd ''trading_bot.db'' | Some f \<Rightarrow> f))"
  using assms init_db_file [of disk cwd fs loc] unfolding get_db_def
  by (auto split: option.splits sum.splits)

text \<open>
  The theorem in a new process: the first call is given no location and creates the
  handle 0 on \<open>/home/bot/trading_bot.db\<close>; the second call is given \<open>other.db\<close> and
  returns the handle 0, which still points at the first file.
\<close>

theorem get_db_returns_first_handle_witness:
  "get_db (\<lambda>_. empty_tables) ''/home/bot'' [] None no_registry =
     (Inr 0, \<lparr>db_instance = Some 0,
               objects = [fresh\<lparr>db_file := ''/home/bot/trading_bot.db''\<rparr>]\<rparr>) \<and>
   get_db (\<lambda>_. empty_tables) ''/tmp'' [Some disk_error] (Some ''other.db'')
       \<lparr>db_instance = Some 0, objects = [fresh\<lparr>db_file := ''/home/bot/trading_bot.db''\<rparr>]\<rparr> =
     (Inr 0, \<lparr>db_instance = Some 0,
               objects = [fresh\<lparr>db_file := ''/home/bot/trading_bot.db''\<rparr>]\<rparr>)"
proof -
  let ?g = "\<lparr>db_instance = Some 0, objects = [fresh\<lparr>db_file := ''/home/bot/trading_bot.db''\<rparr>]\<rparr>"
  have h: "get_db (\<lambda>_. empty_tables) ''/home/bot'' [] None no_registry = (Inr 0, ?g)"
    unfolding get_db_def init_def create_tables_def
    by (simp add: io_defs no_registry_def fresh_def path_join_def)
  from get_db_returns_first_handle [OF h, of "\<lambda>_. empty_tables" "''/tmp''" "[Some disk_error]"
      "Some ''other.db''"] h
  show ?thesis by simp
qed

subsection \<open>The list of active pairs\<close>

lemma split_acc_plain:
  "c \<notin> set x \<Longrightarrow> split_acc c acc x = [rev acc @ x]"
  by (induction x arbitrary: acc) auto

lemma split_acc_piece:
  "c \<notin> set x \<Longrightarrow> split_acc c acc (x @ c # rest) = (rev acc @ x) # split_acc c [] rest"
  by (induction x arbitrary: acc) auto

lemma split_join:
  assumes "xs \<noteq> []" "\<forall>x\<in>set xs. c \<notin> set x"
  shows "split c (join c xs) = xs"
  using assms
proof (induction c xs rule: join.induct)
  case (1 c)
  then show ?case by simp
next
  case (2 c x)
  then show ?case by (simp add: split_def split_acc_plain)
next
  case (3 c x y ys)
  then show ?case by (simp add: split_def split_acc_piece)
qed

lemma join_empty:
  "join c xs = [] \<longleftrightarrow> xs = [] \<or> xs = [[]]"
  by (induction c xs rule: join.induct) auto

lemma pairs_round_trip:
  assumes "\<forall>x\<in>set xs. CHR '','' \<notin> set x" "xs \<noteq> [[]]"
  shows "parse_active_pairs (active_pairs_str (Some (PairList xs))) = xs"
    and "latest_active_pairs (active_pairs_str (Some (PairList xs))) = xs"
  using assms
  by (auto simp: parse_active_pairs_def latest_active_pairs_def active_pairs_str_def
      join_empty split_join)

lemma fold_max_ge: "(a::nat) \<le> fold max ids a"
proof (induction ids arbitrary: a)
  case Nil
  then show ?case by simp
next
  case (Cons y ys)
  have "a \<le> max y a" by simp
  also have "max y a \<le> fold max ys (max y a)" by (rule Cons.IH)
  finally show ?case by simp
qed

lemma fold_max_mem: "x \<in> set ids \<Longrightarrow> (x::nat) \<le> fold max ids a"
proof (induction ids arbitrary: a)
  case Nil then show ?case by simp
next
  case (Cons y ys)
  show ?case
  proof (cases "x = y")
    case True
    have "max y a \<le> fold max ys (max y a)" by (rule fold_max_ge)
    with True show ?thesis by simp
  next
    case False
    with Cons show ?thesis by simp
  qed
qed

lemma next_id_fresh: "x \<in> set ids \<Longrightarrow> x < next_id ids"
  by (simp add: next_id_def fold_max_mem less_Suc_eq_le)

lemma log_bot_status_success:
  assumes "txn s = None" "log_bot_status now st av pairs msg s = (Inr i, s1)"
  shows "conn s1 \<and> txn s1 = None \<and> i = next_id (map status_id (bot_status (stored s))) \<and>
     stored s1 = (stored s)\<lparr>bot_status := bot_status (stored s) @
        [new_status i now st av (active_pairs_str pairs) msg]\<rparr>"
  using assms unfolding log_bot_status_def insert_status_def
  by (auto simp: io_defs Let_def split: io_splits)

lemma set_apply_limit: "set (apply_limit l rows) \<subseteq> set rows"
  by (auto simp: apply_limit_def split: option.splits dest: in_set_takeD)

lemma fetchone_mem: "fetchone rows = Some r \<Longrightarrow> r \<in> set rows"
  by (auto simp: fetchone_def split: list.splits)

lemma get_latest_status_row:
  assumes "conn s" "txn s = None" "get_latest_status s = (Inr (Some (row, l)), s2)"
  shows "row \<in> set (bot_status (stored s)) \<and> l = latest_active_pairs (status_active_pairs row)"
proof -
  from assms have
    "fetchone (take 1 (order_desc status_timestamp (bot_status (stored s)))) = Some row \<and>
     l = latest_active_pairs (status_active_pairs row)"
    unfolding get_latest_status_def get_latest_status_body_def read_guard_def
    by (auto simp: io_defs split: io_splits)
  then have f: "fetchone (take 1 (order_desc status_timestamp (bot_status (stored s)))) = Some row"
    and l: "l = latest_active_pairs (status_active_pairs row)"
    by simp_all
  from fetchone_mem [OF f] have "row \<in> set (bot_status (stored s))"
    by (auto simp: order_desc_def dest: in_set_takeD)
  with l show ?thesis by simp
qed

lemma get_bot_status_row:
  assumes "conn s" "txn s = None" "get_bot_status f sd ed cap s = (Inr rows, s2)"
    "(row, l) \<in> set rows"
  shows "row \<in> set (bot_status (stored s)) \<and> l = parse_active_pairs (status_active_pairs row)"
proof -
  from assms have
    "rows = [] \<or> rows = map (\<lambda>r. (r, parse_active_pairs (status_active_pairs r)))
       (select_status f sd ed cap (bot_status (stored s)))"
    unfolding get_bot_status_def get_bot_status_body_def read_guard_def
    by (auto simp: io_defs Let_def split: io_splits)
  with assms(4) have "row \<in> set (select_status f sd ed cap (bot_status (stored s)))"
    and l: "l = parse_active_pairs (status_active_pairs row)"
    by auto
  then have "row \<in> set (bot_status (stored s))"
    using set_apply_limit unfolding select_status_def order_desc_def by fastforce
  with l show ?thesis by simp
qed

lemma log_market_scan_success:
  assumes "txn s = None" "log_market_scan J now pair signal price strat iv ind s = (Inr i, s1)"
  shows "conn s1 \<and> txn s1 = None \<and> i = next_id (map scan_id (market_scans (stored s))) \<and>
     stored s1 = (stored s)\<lparr>market_scans := market_scans (stored s) @
        [new_scan i now pair signal price strat iv (indicators_str J ind)]\<rparr>"
  using assms unfolding log_market_scan_def insert_scan_def
  by (auto simp: io_defs Let_def split: io_splits)

lemma get_market_scans_row:
  assumes "conn s" "txn s = None" "get_market_scans J f g sd ed cap s = (Inr rows, s2)"
    "(row, d) \<in> set rows"
  shows "row \<in> set (market_scans (stored s)) \<and> d = parse_indicators J (scan_indicators row)"
proof -
  from assms have
    "rows = [] \<or> rows = map (\<lambda>r. (r, parse_indicators J (scan_indicators r)))
       (select_scans f g sd ed cap (market_scans (stored s)))"
    unfolding get_market_scans_def get_market_scans_body_def read_guard_def
    by (auto simp: io_defs Let_def split: io_splits)
  with assms(4) have "row \<in> set (select_scans f g sd ed cap (market_scans (stored s)))"
    and d: "d = parse_indicators J (scan_indicators row)"
    by auto
  then have "row \<in> set (market_scans (stored s))"
    using set_apply_limit unfolding select_scans_def order_desc_def by fastforce
  with d show ?thesis by simp
qed

lemma status_written_row:
  assumes "txn s = None" "log_bot_status now st av pairs msg s = (Inr i, s1)"
    "row \<in> set (bot_status (stored s1))" "status_id row = i"
  shows "status_active_pairs row = active_pairs_str pairs"
proof -
  note w = log_bot_status_success [OF assms(1,2)]
  from w assms(3) have "row \<in> set (bot_status (stored s)) \<or>
      row = new_status i now st av (active_pairs_str pairs) msg"
    by auto
  moreover have "row \<notin> set (bot_status (stored s))"
  proof
    assume "row \<in> set (bot_status (stored s))"
    then have "status_id row \<in> set (map status_id (bot_status (stored s)))" by simp
    from next_id_fresh [OF this] w assms(4) show False by simp
  qed
  ultimately show ?thesis by (simp add: new_status_def)
qed

lemma scan_written_row:
  assumes "txn s = None" "log_market_scan J now pair signal price strat iv ind s = (Inr i, s1)"
    "row \<in> set (market_scans (stored s1))" "scan_id row = i"
  shows "scan_indicators row = indicators_str J ind"
proof -
  note w = log_market_scan_success [OF assms(1,2)]
  from w assms(3) have "row \<in> set (market_scans (stored s)) \<or>
      row = new_scan i now pair signal price strat iv (indicators_str J ind)"
    by auto
  moreover have "row \<notin> set (market_scans (stored s))"
  proof
    assume "row \<in> set (market_scans (stored s))"
    then have "scan_id row \<in> set (map scan_id (market_scans (stored s)))" by simp
    from next_id_fresh [OF this] w assms(4) show False by simp
  qed
  ultimately show ?thesis by (simp add: new_scan_def)
qed

text \<open>
  Claim C4, as the spec states it, fails: a symbol with a comma is neither rejected
  nor escaped. \<open>log_bot_status\<close> accepts the list of the one symbol \<open>BTC,USDT\<close> and
  returns the identifier 1; \<open>get_latest_status\<close> then gives a list of two symbols.
\<close>

theorem comma_symbol_counterexample:
  "fst (log_bot_status ''2024-01-01 00:00:00'' ''RUNNING'' None
          (Some (PairList [''BTC,USDT''])) None fresh) = Inr 1 \<and>
   map_option snd (projr (fst (get_latest_status
      (snd (log_bot_status ''2024-01-01 00:00:00'' ''RUNNING'' None
          (Some (PairList [''BTC,USDT''])) None fresh))))) = Some [''BTC'', ''USDT'']"
  unfolding log_bot_status_def insert_status_def get_latest_status_def get_latest_status_body_def
    read_guard_def
  by (simp add: io_defs Let_def fresh_def next_id_def empty_tables_def order_desc_def
      fetchone_def new_status_def active_pairs_str_def latest_active_pairs_def split_def)

text \<open>
  The list of the one empty symbol is not read back either: it is stored as the
  empty string, which the readers take for no list.
\<close>

lemma single_empty_symbol_lost:
  "parse_active_pairs (active_pairs_str (Some (PairList [[]]))) = [] \<and>
   latest_active_pairs (active_pairs_str (Some (PairList [[]]))) = []"
  by (simp add: parse_active_pairs_def latest_active_pairs_def active_pairs_str_def)

text \<open>
  Claim C4, amended. Let no symbol of the list contain a comma, and let the list not
  be the list of the one empty symbol. When \<open>log_bot_status\<close> returns an
  identifier (on a handle with no transaction left open), the file holds one more
  status, with that identifier, and both ways of reading its column give the list
  that was written; whenever \<open>get_latest_status\<close> or \<open>get_bot_status\<close> then returns
  the row with that identifier, its \<open>active_pairs_list\<close> is the list that was
  written.
\<close>

theorem active_pairs_round_trip:
  assumes "\<forall>x\<in>set xs. CHR '','' \<notin> set x" and "xs \<noteq> [[]]" and "txn s = None"
    and "log_bot_status now st av (Some (PairList xs)) msg s = (Inr i, s1)"
  shows
    "(\<exists>r. bot_status (stored s1) = bot_status (stored s) @ [r] \<and> status_id r = i \<and>
          parse_active_pairs (status_active_pairs r) = xs \<and>
          latest_active_pairs (status_active_pairs r) = xs)
     \<and> (\<forall>row l s2. get_latest_status s1 = (Inr (Some (row, l)), s2) \<longrightarrow>
           status_id row = i \<longrightarrow> l = xs)
     \<and> (\<forall>f sd ed cap rows s2 row l. get_bot_status f sd ed cap s1 = (Inr rows, s2) \<longrightarrow>
           (row, l) \<in> set rows \<longrightarrow> status_id row = i \<longrightarrow> l = xs)"
proof (intro conjI allI impI)
  note w = log_bot_status_success [OF assms(3,4)]
  note rt = pairs_round_trip [OF assms(1,2)]
  show "\<exists>r. bot_status (stored s1) = bot_status (stored s) @ [r] \<and> status_id r = i \<and>
          parse_active_pairs (status_active_pairs r) = xs \<and>
          latest_active_pairs (status_active_pairs r) = xs"
    using w rt by (simp add: new_status_def)
next
  fix row l s2
  assume g: "get_latest_status s1 = (Inr (Some (row, l)), s2)" and i: "status_id row = i"
  note w = log_bot_status_success [OF assms(3,4)]
  from get_latest_status_row [OF _ _ g] w
  have r: "row \<in> set (bot_status (stored s1))"
    and l: "l = latest_active_pairs (status_active_pairs row)" by simp_all
  from status_written_row [OF assms(3,4) r i] l pairs_round_trip(2) [OF assms(1,2)]
  show "l = xs" by simp
next
  fix f sd ed cap rows s2 row l
  assume g: "get_bot_status f sd ed cap s1 = (Inr rows, s2)" and m: "(row, l) \<in> set rows"
    and i: "status_id row = i"
  note w = log_bot_status_success [OF assms(3,4)]
  from get_bot_status_row [OF _ _ g m] w
  have r: "row \<in> set (bot_status (stored s1))"
    and l: "l = parse_active_pairs (status_active_pairs row)" by simp_all
  from status_written_row [OF assms(3,4) r i] l pairs_round_trip(1) [OF assms(1,2)]
  show "l = xs" by simp
qed

text \<open>
  The theorem at the status of the self test: the two symbols are stored as
  \<open>BTCUSDT,ETHUSDT\<close> and \<open>get_latest_status\<close> reads the two symbols back.
\<close>

theorem active_pairs_round_trip_witness:
  "CHR '','' \<notin> set ''BTCUSDT'' \<and> CHR '','' \<notin> set ''ETHUSDT'' \<and>
   [''BTCUSDT'', ''ETHUSDT''] \<noteq> [[]] \<and> txn fresh = None \<and>
   log_bot_status ''2024-01-01 00:00:00'' ''RUNNING'' (Some 10000)
       (Some (PairList [''BTCUSDT'', ''ETHUSDT''])) (Some ''Test status'') fresh =
     (Inr 1, fresh\<lparr>stored := empty_tables\<lparr>bot_status :=
        [new_status 1 ''2024-01-01 00:00:00'' ''RUNNING'' (Some 10000)
           (Some ''BTCUSDT,ETHUSDT'') (Some ''Test status'')]\<rparr>\<rparr>) \<and>
   get_latest_status (fresh\<lparr>stored := empty_tables\<lparr>bot_status :=
        [new_status 1 ''2024-01-01 00:00:00'' ''RUNNING'' (Some 10000)
           (Some ''BTCUSDT,ETHUSDT'') (Some ''Test status'')]\<rparr>\<rparr>) =
     (Inr (Some (new_status 1 ''2024-01-01 00:00:00'' ''RUNNING'' (Some 10000)
           (Some ''BTCUSDT,ETHUSDT'') (Some ''Test status''), [''BTCUSDT'', ''ETHUSDT''])),
      fresh\<lparr>stored := empty_tables\<lparr>bot_status :=
        [new_status 1 ''2024-01-01 00:00:00'' ''RUNNING'' (Some 10000)
           (Some ''BTCUSDT,ETHUSDT'') (Some ''Test status'')]\<rparr>\<rparr>)"
proof -
  let ?r = "new_status 1 ''2024-01-01 00:00:00'' ''RUNNING'' (Some 10000)
           (Some ''BTCUSDT,ETHUSDT'') (Some ''Test status'')"
  let ?s1 = "fresh\<lparr>stored := empty_tables\<lparr>bot_status := [?r]\<rparr>\<rparr>"
  have c: "\<forall>x\<in>set [''BTCUSDT'', ''ETHUSDT'']. CHR '','' \<notin> set x"
    and n: "[''BTCUSDT'', ''ETHUSDT''] \<noteq> [[]]" and t: "txn fresh = None"
    by (simp_all add: fresh_def)
  have w: "log_bot_status ''2024-01-01 00:00:00'' ''RUNNING'' (Some 10000)
       (Some (PairList [''BTCUSDT'', ''ETHUSDT''])) (Some ''Test status'') fresh = (Inr 1, ?s1)"
    unfolding log_bot_status_def insert_status_def
    by (simp add: io_defs Let_def fresh_def next_id_def empty_tables_def active_pairs_str_def)
  have "\<exists>l. get_latest_status ?s1 = (Inr (Some (?r, l)), ?s1)"
    unfolding get_latest_status_def get_latest_status_body_def read_guard_def
    by (simp add: io_defs fresh_def empty_tables_def order_desc_def fetchone_def)
  then obtain l where g: "get_latest_status ?s1 = (Inr (Some (?r, l)), ?s1)" ..
  have i: "status_id ?r = 1"
    by (simp add: new_status_def)
  from active_pairs_round_trip [OF c n t w] g i have "l = [''BTCUSDT'', ''ETHUSDT'']"
    by blast
  with c n t w g show ?thesis by simp
qed

subsection \<open>Empty and omitted structured inputs\<close>

text \<open>
  What the writers and three of the readers do with an empty input.
  \<open>log_market_scan\<close> with the empty mapping is the same operation as
  \<open>log_market_scan\<close> with no mapping, and \<open>log_bot_status\<close> with the empty list the
  same as with no list: whatever is read afterwards is the same in both cases.
  When the call returns an identifier (on a handle with no transaction left open),
  the new row has that identifier and \<open>NULL\<close> in the column; \<open>get_market_scans\<close>
  gives the row the empty \<open>indicators_dict\<close>, and \<open>get_bot_status\<close> and
  \<open>get_latest_status\<close> give it the empty \<open>active_pairs_list\<close>.
\<close>

lemma empty_input_stored_as_null:
  assumes "txn s = None"
  shows
    "log_market_scan J now pair signal price strat iv (Some []) =
       log_market_scan J now pair signal price strat iv None
     \<and> log_bot_status now st av (Some (PairList [])) msg = log_bot_status now st av None msg
     \<and> (\<forall>i s1. log_market_scan J now pair signal price strat iv (Some []) s = (Inr i, s1) \<longrightarrow>
          (\<exists>r. market_scans (stored s1) = market_scans (stored s) @ [r] \<and> scan_id r = i \<and>
               scan_indicators r = None) \<and>
          (\<forall>f g sd ed cap rows s2 row d.
             get_market_scans J f g sd ed cap s1 = (Inr rows, s2) \<longrightarrow>
             (row, d) \<in> set rows \<longrightarrow> scan_id row = i \<longrightarrow> d = []))
     \<and> (\<forall>i s1. log_bot_status now st av (Some (PairList [])) msg s = (Inr i, s1) \<longrightarrow>
          (\<exists>r. bot_status (stored s1) = bot_status (stored s) @ [r] \<and> status_id r = i \<and>
               status_active_pairs r = None) \<and>
          (\<forall>f sd ed cap rows s2 row l.
             get_bot_status f sd ed cap s1 = (Inr rows, s2) \<longrightarrow>
             (row, l) \<in> set rows \<longrightarrow> status_id row = i \<longrightarrow> l = []) \<and>
          (\<forall>row l s2. get_latest_status s1 = (Inr (Some (row, l)), s2) \<longrightarrow>
             status_id row = i \<longrightarrow> l = []))"
proof (intro conjI allI impI)
  show "log_market_scan J now pair signal price strat iv (Some []) =
       log_market_scan J now pair signal price strat iv None"
    by (simp add: log_market_scan_def indicators_str_def)
  show "log_bot_status now st av (Some (PairList [])) msg = log_bot_status now st av None msg"
    by (simp add: log_bot_status_def active_pairs_str_def)
next
  fix i s1
  assume w: "log_market_scan J now pair signal price strat iv (Some []) s = (Inr i, s1)"
  from log_market_scan_success [OF assms w]
  show "\<exists>r. market_scans (stored s1) = market_scans (stored s) @ [r] \<and> scan_id r = i \<and>
               scan_indicators r = None"
    by (simp add: new_scan_def indicators_str_def)
next
  fix i s1 f g sd ed cap rows s2 row d
  assume w: "log_market_scan J now pair signal price strat iv (Some []) s = (Inr i, s1)"
    and q: "get_market_scans J f g sd ed cap s1 = (Inr rows, s2)"
    and m: "(row, d) \<in> set rows" and i: "scan_id row = i"
  from get_market_scans_row [OF _ _ q m] log_market_scan_success [OF assms w]
  have r: "row \<in> set (market_scans (stored s1))"
    and d: "d = parse_indicators J (scan_indicators row)" by simp_all
  from scan_written_row [OF assms w r i] d show "d = []"
    by (simp add: indicators_str_def parse_indicators_def)
next
  fix i s1
  assume w: "log_bot_status now st av (Some (PairList [])) msg s = (Inr i, s1)"
  from log_bot_status_success [OF assms w]
  show "\<exists>r. bot_status (stored s1) = bot_status (stored s) @ [r] \<and> status_id r = i \<and>
               status_active_pairs r = None"
    by (simp add: new_status_def active_pairs_str_def)
next
  fix i s1 f sd ed cap rows s2 row l
  assume w: "log_bot_status now st av (Some (PairList [])) msg s = (Inr i, s1)"
    and q: "get_bot_status f sd ed cap s1 = (Inr rows, s2)"
    and m: "(row, l) \<in> set rows" and i: "status_id row = i"
  from get_bot_status_row [OF _ _ q m] log_bot_status_success [OF assms w]
  have r: "row \<in> set (bot_status (stored s1))"
    and l: "l = parse_active_pairs (status_active_pairs row)" by simp_all
  from status_written_row [OF assms w r i] l show "l = []"
    by (simp add: active_pairs_str_def parse_active_pairs_def)
next
  fix i s1 row l s2
  assume w: "log_bot_status now st av (Some (PairList [])) msg s = (Inr i, s1)"
    and q: "get_latest_status s1 = (Inr (Some (row, l)), s2)" and i: "status_id row = i"
  from get_latest_status_row [OF _ _ q] log_bot_status_success [OF assms w]
  have r: "row \<in> set (bot_status (stored s1))"
    and l: "l = latest_active_pairs (status_active_pairs row)" by simp_all
  from status_written_row [OF assms w r i] l show "l = []"
    by (simp add: active_pairs_str_def latest_active_pairs_def)
qed

text \<open>
  At the handle of the self test: the scan logged with the empty mapping is stored
  with \<open>NULL\<close>, and logging it with no mapping gives the same.
\<close>

lemma empty_input_stored_as_null_example:
  "txn fresh = None \<and>
   log_market_scan json_empty_object ''2024-01-01 00:00:00'' ''BTCUSDT'' ''BUY'' 50000
       None None (Some []) fresh =
     (Inr 1, fresh\<lparr>stored := empty_tables\<lparr>market_scans :=
        [new_scan 1 ''2024-01-01 00:00:00'' ''BTCUSDT'' ''BUY'' 50000 None None None]\<rparr>\<rparr>) \<and>
   log_market_scan json_empty_object ''2024-01-01 00:00:00'' ''BTCUSDT'' ''BUY'' 50000
       None None None fresh =
     (Inr 1, fresh\<lparr>stored := empty_tables\<lparr>market_scans :=
        [new_scan 1 ''2024-01-01 00:00:00'' ''BTCUSDT'' ''BUY'' 50000 None None None]\<rparr>\<rparr>)"
proof -
  have t: "txn fresh = None"
    by (simp add: fresh_def)
  have w: "log_market_scan json_empty_object ''2024-01-01 00:00:00'' ''BTCUSDT'' ''BUY'' 50000
       None None (Some []) fresh =
     (Inr 1, fresh\<lparr>stored := empty_tables\<lparr>market_scans :=
        [new_scan 1 ''2024-01-01 00:00:00'' ''BTCUSDT'' ''BUY'' 50000 None None None]\<rparr>\<rparr>)"
    unfolding log_market_scan_def insert_scan_def
    by (simp add: io_defs Let_def fresh_def next_id_def empty_tables_def indicators_str_def)
  from empty_input_stored_as_null [OF t, THEN conjunct1, of json_empty_object
      "''2024-01-01 00:00:00''" "''BTCUSDT''" "''BUY''" 50000 None None]
  have "log_market_scan json_empty_object ''2024-01-01 00:00:00'' ''BTCUSDT'' ''BUY'' 50000
       None None None fresh =
     log_market_scan json_empty_object ''2024-01-01 00:00:00'' ''BTCUSDT'' ''BUY'' 50000
       None None (Some []) fresh"
    by simp
  with t w show ?thesis by simp
qed

text \<open>
  Claim C9. The claim holds of the writers and of \<open>get_market_scans\<close>,
  \<open>get_bot_status\<close> and \<open>get_latest_status\<close>, as shown above, and the code breaks
  it in \<open>get_latest_scan\<close>. That reader parses the column under
  \<open>if scan_dict.get('indicators'):\<close> and has no \<open>else\<close>, where
  \<open>get_latest_status\<close> has one and \<open>parse_indicators\<close> returns the empty mapping
  for \<open>NULL\<close>; it even sets the empty mapping itself when \<open>json.loads\<close> raises.
  The code at the failing input: on the handle of the self test, a scan is logged
  with the empty mapping. The call returns the identifier 1 and the column holds
  \<open>NULL\<close>; \<open>get_market_scans\<close> gives the row the empty mapping;
  \<open>get_latest_scan\<close> returns the row with the entry \<open>indicators\<close> left as
  \<open>None\<close>, not as the empty mapping.
\<close>

theorem latest_scan_keeps_null:
  "fst (log_market_scan json_empty_object ''2024-01-01 00:00:00'' ''BTCUSDT'' ''BUY'' 50000
          None None (Some []) fresh) = Inr 1 \<and>
   map scan_indicators (market_scans (stored (snd
      (log_market_scan json_empty_object ''2024-01-01 00:00:00'' ''BTCUSDT'' ''BUY'' 50000
          None None (Some []) fresh)))) = [None] \<and>
   map snd (projr (fst (get_market_scans json_empty_object (Some ''BTCUSDT'') None None None
      None
      (snd (log_market_scan json_empty_object ''2024-01-01 00:00:00'' ''BTCUSDT'' ''BUY'' 50000
          None None (Some []) fresh))))) = [[]] \<and>
   map_option snd (projr (fst (get_latest_scan json_empty_object (Some ''BTCUSDT'')
      (snd (log_market_scan json_empty_object ''2024-01-01 00:00:00'' ''BTCUSDT'' ''BUY'' 50000
          None None (Some []) fresh))))) = Some (Raw None)"
  unfolding log_market_scan_def insert_scan_def get_latest_scan_def get_latest_scan_body_def
    get_market_scans_def get_market_scans_body_def read_guard_def
  by (simp add: io_defs Let_def fresh_def next_id_def empty_tables_def order_desc_def
      fetchone_def new_scan_def indicators_str_def latest_indicators_def eq_filter_def
      eq_filter_null_def from_date_def to_date_def select_scans_def apply_limit_def
      parse_indicators_def)

subsection \<open>The running total of \<open>get_trades\<close>\<close>













subsection \<open>A trade is read back\<close>






end
